theory Spec2Isabelle
  imports Main "HOL-Library.Product_Lexorder" "HOL-Library.Multiset"
begin

section \<open>The forum backend of app.py\<close>

text \<open>
  A shallow embedding of \<^verbatim>\<open>src/app.py\<close>: the store connector, the schema
  initializer, the request handlers and the time conversion they apply to
  \<^verbatim>\<open>created_at\<close>. Strings are lists of characters, one element per Python
  character. Text of the source that is outside ASCII (the response messages) is
  named by a constructor.
\<close>

subsection \<open>Configuration and the store connector\<close>

text \<open>
  \<^verbatim>\<open>os.environ.get('DATABASE_URL')\<close> is \<open>None\<close> or a string;
  \<^verbatim>\<open>POSTGRES_AVAILABLE\<close> is fixed when the module is imported.
\<close>

record config =
  database_url :: "string option"
  postgres_available :: bool

text \<open>Which driver produced a connection.\<close>

datatype backend = Postgres | Sqlite

text \<open>
  The exceptions of the model. \<open>Interrupted\<close> stands for those that are no
  \<^verbatim>\<open>Exception\<close> (\<^verbatim>\<open>KeyboardInterrupt\<close>, \<^verbatim>\<open>SystemExit\<close>):
  \<^verbatim>\<open>except Exception\<close> does not catch them.
\<close>

datatype error =
    Interrupted
  | ConnectError
  | OperationalError
  | BadRequest
  | TypeError
  | KeyError
  | SyntaxError
  | NoSuchTable
  | IntegrityError
  | DataError

definition is_exception :: "error \<Rightarrow> bool" where
  "is_exception e = (e \<noteq> Interrupted)"

text \<open>Python truthiness of \<^verbatim>\<open>os.environ.get('DATABASE_URL')\<close>.\<close>

definition url_truthy :: "string option \<Rightarrow> bool" where
  "url_truthy u = (case u of None \<Rightarrow> False | Some s \<Rightarrow> s \<noteq> [])"

definition startswith :: "string \<Rightarrow> string \<Rightarrow> bool" where
  "startswith s p = (take (length p) s = p)"

definition endswith :: "string \<Rightarrow> string \<Rightarrow> bool" where
  "endswith s p = (length p \<le> length s \<and> drop (length s - length p) s = p)"

text \<open>
  The two drivers are outside the program. \<open>psycopg2_connect u\<close> says what
  \<^verbatim>\<open>psycopg2.connect(u, sslmode='require')\<close> does and \<open>sqlite3_connect\<close> what
  \<^verbatim>\<open>sqlite3.connect('database.db')\<close> does: \<open>None\<close> when the call returns a
  connection, \<open>Some e\<close> when it raises \<open>e\<close>.

  \<open>sqlite_connection\<close> is lines 35 and 47, \<open>try_primary\<close> the body of the
  \<^verbatim>\<open>try\<close> block (lines 29 to 41), \<open>get_db_connection\<close> the function: \<open>Inl e\<close>
  when \<open>e\<close> leaves it. Line 47 is outside every \<^verbatim>\<open>try\<close>.
\<close>

definition sqlite_connection :: "error option \<Rightarrow> error + backend" where
  "sqlite_connection sqlite3_connect =
     (case sqlite3_connect of None \<Rightarrow> Inr Sqlite | Some e \<Rightarrow> Inl e)"

definition try_primary ::
  "(string \<Rightarrow> error option) \<Rightarrow> error option \<Rightarrow> string \<Rightarrow> error + backend" where
  "try_primary psycopg2_connect sqlite3_connect u =
     (if startswith u ''{{'' \<and> endswith u ''}}'' then sqlite_connection sqlite3_connect
      else (case psycopg2_connect u of None \<Rightarrow> Inr Postgres | Some e \<Rightarrow> Inl e))"

definition get_db_connection ::
  "config \<Rightarrow> (string \<Rightarrow> error option) \<Rightarrow> error option \<Rightarrow> error + backend" where
  "get_db_connection cfg psycopg2_connect sqlite3_connect =
     (case database_url cfg of
        Some u \<Rightarrow>
          if u \<noteq> [] \<and> postgres_available cfg then
            (case try_primary psycopg2_connect sqlite3_connect u of
               Inr conn \<Rightarrow> Inr conn
             | Inl e \<Rightarrow>
                 if is_exception e then sqlite_connection sqlite3_connect else Inl e)
          else sqlite_connection sqlite3_connect
      | None \<Rightarrow> sqlite_connection sqlite3_connect)"

subsection \<open>Timestamps\<close>

text \<open>
  A \<^verbatim>\<open>datetime\<close> object without time zone, and the Python values a driver returns
  for the \<^verbatim>\<open>created_at\<close> column: \<^verbatim>\<open>None\<close>, a string (sqlite3) or a
  \<^verbatim>\<open>datetime\<close> (psycopg2).
\<close>

record datetime =
  year :: nat
  month :: nat
  day :: nat
  hour :: nat
  minute :: nat
  second :: nat
  microsecond :: nat

datatype pytime = PyNone | PyStr string | PyDatetime datetime

definition is_leap :: "nat \<Rightarrow> bool" where
  "is_leap y = (y mod 4 = 0 \<and> (y mod 100 \<noteq> 0 \<or> y mod 400 = 0))"

definition days_in_month :: "nat \<Rightarrow> nat \<Rightarrow> nat" where
  "days_in_month y m =
     (if m = 2 then (if is_leap y then 29 else 28)
      else if m = 4 \<or> m = 6 \<or> m = 9 \<or> m = 11 then 30
      else 31)"

text \<open>The values a \<^verbatim>\<open>datetime\<close> object can hold (years 1 to 9999).\<close>

definition valid_datetime :: "datetime \<Rightarrow> bool" where
  "valid_datetime dt =
     (1 \<le> year dt \<and> year dt \<le> 9999 \<and> 1 \<le> month dt \<and> month dt \<le> 12
      \<and> 1 \<le> day dt \<and> day dt \<le> days_in_month (year dt) (month dt)
      \<and> hour dt \<le> 23 \<and> minute dt \<le> 59 \<and> second dt \<le> 59
      \<and> microsecond dt \<le> 999999)"

text \<open>
  \<^verbatim>\<open>datetime.strptime(s, '%Y-%m-%d %H:%M:%S')\<close>. The library turns the format into
  the regular expression
  \<^verbatim>\<open>(\d\d\d\d)-(1[0-2]|0[1-9]|[1-9])-(3[0-1]|[1-2]\d|0[1-9]|[1-9]| [1-9])\s+(2[0-3]|[0-1]\d|\d):([0-5]\d|\d):(6[0-1]|[0-5]\d|\d)\<close>,
  matches it at the start of the string and raises \<^verbatim>\<open>ValueError\<close> when it does not
  match, when text remains after the match, or when the numbers are no date. Each
  field takes the first alternative that matches. A later alternative of the same
  field would leave a digit in front of a separator that is no digit, so there is no
  second way to match and the model does not backtrack. Characters are code points
  below 256: the digits are \<open>0\<close> to \<open>9\<close>.
\<close>

definition digit_val :: "char \<Rightarrow> nat option" where
  "digit_val c =
     (let n = of_char c :: nat in if 48 \<le> n \<and> n \<le> 57 then Some (n - 48) else None)"

text \<open>What \<^verbatim>\<open>\s\<close> matches below code point 256.\<close>

definition is_space :: "char \<Rightarrow> bool" where
  "is_space c = (of_char c \<in> {9, 10, 11, 12, 13, 28, 29, 30, 31, 32, 133, 160 :: nat})"

text \<open>
  A field of one or two digits: \<open>two_ok\<close> says which pairs of digits the two-digit
  alternatives accept, \<open>one_ok\<close> which digit the one-digit alternative accepts.
\<close>

fun field :: "(nat \<Rightarrow> nat \<Rightarrow> bool) \<Rightarrow> (nat \<Rightarrow> bool) \<Rightarrow> string \<Rightarrow> (nat \<times> string) option" where
  "field two_ok one_ok [] = None"
| "field two_ok one_ok [c] =
     (case digit_val c of
        Some a \<Rightarrow> if one_ok a then Some (a, []) else None
      | None \<Rightarrow> None)"
| "field two_ok one_ok (c # c' # r) =
     (case digit_val c of
        None \<Rightarrow> None
      | Some a \<Rightarrow>
          (case digit_val c' of
             Some b \<Rightarrow>
               if two_ok a b then Some (10 * a + b, r)
               else if one_ok a then Some (a, c' # r)
               else None
           | None \<Rightarrow> if one_ok a then Some (a, c' # r) else None))"

definition field_Y :: "string \<Rightarrow> (nat \<times> string) option" where
  "field_Y s =
     (case s of
        c1 # c2 # c3 # c4 # r \<Rightarrow>
          (case (digit_val c1, digit_val c2, digit_val c3, digit_val c4) of
             (Some a, Some b, Some c, Some d) \<Rightarrow> Some (1000 * a + 100 * b + 10 * c + d, r)
           | _ \<Rightarrow> None)
      | _ \<Rightarrow> None)"

definition field_m :: "string \<Rightarrow> (nat \<times> string) option" where
  "field_m = field (\<lambda>a b. (a = 1 \<and> b \<le> 2) \<or> (a = 0 \<and> 1 \<le> b)) (\<lambda>a. 1 \<le> a)"

definition field_d :: "string \<Rightarrow> (nat \<times> string) option" where
  "field_d s =
     (case field (\<lambda>a b. (a = 3 \<and> b \<le> 1) \<or> a = 1 \<or> a = 2 \<or> (a = 0 \<and> 1 \<le> b)) (\<lambda>a. 1 \<le> a) s of
        Some r \<Rightarrow> Some r
      | None \<Rightarrow>
          (case s of
             c # c' # r \<Rightarrow>
               (if c = CHR '' '' then
                  (case digit_val c' of
                     Some a \<Rightarrow> if 1 \<le> a then Some (a, r) else None
                   | None \<Rightarrow> None)
                else None)
           | _ \<Rightarrow> None))"

definition field_H :: "string \<Rightarrow> (nat \<times> string) option" where
  "field_H = field (\<lambda>a b. (a = 2 \<and> b \<le> 3) \<or> a \<le> 1) (\<lambda>a. True)"

definition field_M :: "string \<Rightarrow> (nat \<times> string) option" where
  "field_M = field (\<lambda>a b. a \<le> 5) (\<lambda>a. True)"

definition field_S :: "string \<Rightarrow> (nat \<times> string) option" where
  "field_S = field (\<lambda>a b. (a = 6 \<and> b \<le> 1) \<or> a \<le> 5) (\<lambda>a. True)"

definition literal :: "char \<Rightarrow> string \<Rightarrow> string option" where
  "literal c s = (case s of x # r \<Rightarrow> if x = c then Some r else None | [] \<Rightarrow> None)"

text \<open>\<^verbatim>\<open>\s+\<close>: one or more white-space characters, as many as there are.\<close>

definition spaces :: "string \<Rightarrow> string option" where
  "spaces s =
     (case s of
        x # r \<Rightarrow> if is_space x then Some (dropWhile is_space r) else None
      | [] \<Rightarrow> None)"

definition strptime_date :: "string \<Rightarrow> ((nat \<times> nat \<times> nat) \<times> string) option" where
  "strptime_date s =
     Option.bind (field_Y s) (\<lambda>(y, s1).
     Option.bind (literal CHR ''-'' s1) (\<lambda>s2.
     Option.bind (field_m s2) (\<lambda>(m, s3).
     Option.bind (literal CHR ''-'' s3) (\<lambda>s4.
     Option.bind (field_d s4) (\<lambda>(d, s5). Some ((y, m, d), s5))))))"

definition strptime_time :: "string \<Rightarrow> ((nat \<times> nat \<times> nat) \<times> string) option" where
  "strptime_time s =
     Option.bind (field_H s) (\<lambda>(h, s1).
     Option.bind (literal CHR '':'' s1) (\<lambda>s2.
     Option.bind (field_M s2) (\<lambda>(mi, s3).
     Option.bind (literal CHR '':'' s3) (\<lambda>s4.
     Option.bind (field_S s4) (\<lambda>(sec, s5). Some ((h, mi, sec), s5))))))"

definition strptime :: "string \<Rightarrow> datetime option" where
  "strptime s =
     Option.bind (strptime_date s) (\<lambda>((y, m, d), s1).
     Option.bind (spaces s1) (\<lambda>s2.
     Option.bind (strptime_time s2) (\<lambda>((h, mi, sec), s3).
       (let dt = \<lparr>year = y, month = m, day = d, hour = h, minute = mi, second = sec,
                   microsecond = 0\<rparr>
        in if s3 = [] \<and> valid_datetime dt then Some dt else None))))"

text \<open>
  \<^verbatim>\<open>dt + timedelta(hours=8)\<close>: \<open>None\<close> is the \<^verbatim>\<open>OverflowError\<close> past year 9999.
\<close>

definition next_day :: "datetime \<Rightarrow> datetime option" where
  "next_day dt =
     (if day dt < days_in_month (year dt) (month dt) then Some (dt\<lparr>day := day dt + 1\<rparr>)
      else if month dt < 12 then Some (dt\<lparr>month := month dt + 1, day := 1\<rparr>)
      else if year dt < 9999 then Some (dt\<lparr>year := year dt + 1, month := 1, day := 1\<rparr>)
      else None)"

definition add_hours8 :: "datetime \<Rightarrow> datetime option" where
  "add_hours8 dt =
     (if hour dt + 8 < 24 then Some (dt\<lparr>hour := hour dt + 8\<rparr>)
      else map_option (\<lambda>d. d\<lparr>hour := hour dt + 8 - 24\<rparr>) (next_day dt))"

text \<open>
  \<^verbatim>\<open>strftime('%Y-%m-%d %H:%M:%S')\<close>, every field padded with zeros (the year to
  four digits, as the library documents it).
\<close>

definition digit_char :: "nat \<Rightarrow> char" where
  "digit_char n = ''0123456789'' ! (n mod 10)"

definition pad2 :: "nat \<Rightarrow> string" where
  "pad2 n = [digit_char (n div 10), digit_char n]"

definition pad4 :: "nat \<Rightarrow> string" where
  "pad4 n = [digit_char (n div 1000), digit_char (n div 100), digit_char (n div 10), digit_char n]"

definition strftime :: "datetime \<Rightarrow> string" where
  "strftime dt =
     pad4 (year dt) @ ''-'' @ pad2 (month dt) @ ''-'' @ pad2 (day dt) @ '' '' @
     pad2 (hour dt) @ '':'' @ pad2 (minute dt) @ '':'' @ pad2 (second dt)"

text \<open>
  The conversion that \<^verbatim>\<open>get_posts\<close> (lines 266 to 280) and \<^verbatim>\<open>get_post\<close>
  (lines 347 to 361) both apply to \<^verbatim>\<open>created_at\<close>. \<open>convert_time\<close> is the body
  of the \<^verbatim>\<open>try\<close> block, \<open>formatted_time\<close> the whole statement with its
  \<^verbatim>\<open>except Exception\<close>.
\<close>

definition time_truthy :: "pytime \<Rightarrow> bool" where
  "time_truthy v = (case v of PyNone \<Rightarrow> False | PyStr s \<Rightarrow> s \<noteq> [] | PyDatetime dt \<Rightarrow> True)"

datatype time_error = ValueError | OverflowError

definition convert_time :: "pytime \<Rightarrow> time_error + pytime" where
  "convert_time created_at =
     (case created_at of
        PyStr s \<Rightarrow>
          (case strptime s of
             None \<Rightarrow> Inl ValueError
           | Some dt \<Rightarrow>
               (case add_hours8 dt of
                  None \<Rightarrow> Inl OverflowError
                | Some beijing_time \<Rightarrow> Inr (PyStr (strftime beijing_time))))
      | PyDatetime dt \<Rightarrow>
          (case add_hours8 dt of
             None \<Rightarrow> Inl OverflowError
           | Some beijing_time \<Rightarrow> Inr (PyStr (strftime beijing_time)))
      | PyNone \<Rightarrow> Inr created_at)"

definition formatted_time :: "pytime \<Rightarrow> pytime" where
  "formatted_time created_at =
     (if time_truthy created_at then
        (case convert_time created_at of
           Inr t \<Rightarrow> t
         | Inl time_error \<Rightarrow> created_at)
      else created_at)"





subsection \<open>Request bodies\<close>

text \<open>
  What \<^verbatim>\<open>request.get_json()\<close> returns: a parsed JSON value, \<open>JNull\<close> for
  \<^verbatim>\<open>None\<close>. Numbers are integers here. An object keeps its items as a list.
\<close>

datatype json =
    JNull
  | JBool bool
  | JNum int
  | JStr string
  | JArr "json list"
  | JObj "(string \<times> json) list"

fun truthy :: "json \<Rightarrow> bool" where
  "truthy JNull = False"
| "truthy (JBool b) = b"
| "truthy (JNum n) = (n \<noteq> 0)"
| "truthy (JStr s) = (s \<noteq> [])"
| "truthy (JArr xs) = (xs \<noteq> [])"
| "truthy (JObj kvs) = (kvs \<noteq> [])"

text \<open>\<^verbatim>\<open>k in s\<close> on two strings: \<open>k\<close> occurs in \<open>s\<close>.\<close>

definition contains_str :: "string \<Rightarrow> string \<Rightarrow> bool" where
  "contains_str s k = list_ex (\<lambda>i. take (length k) (drop i s) = k) [0..<Suc (length s)]"

text \<open>
  \<^verbatim>\<open>k in data\<close> and \<^verbatim>\<open>data[k]\<close> for a string key: a key of a dict, a substring
  of a string, an element of a list; \<^verbatim>\<open>TypeError\<close> on the other values.
\<close>

definition py_in :: "string \<Rightarrow> json \<Rightarrow> error + bool" where
  "py_in k data =
     (case data of
        JObj kvs \<Rightarrow> Inr (k \<in> fst ` set kvs)
      | JStr s \<Rightarrow> Inr (contains_str s k)
      | JArr xs \<Rightarrow> Inr (JStr k \<in> set xs)
      | _ \<Rightarrow> Inl TypeError)"

definition py_getitem :: "json \<Rightarrow> string \<Rightarrow> error + json" where
  "py_getitem data k =
     (case data of
        JObj kvs \<Rightarrow> (case map_of kvs k of Some v \<Rightarrow> Inr v | None \<Rightarrow> Inl KeyError)
      | _ \<Rightarrow> Inl TypeError)"

subsection \<open>The store\<close>

text \<open>
  The two tables of lines 58 to 98, with the counters behind the generated ids. A
  stored \<^verbatim>\<open>created_at\<close> is a point in time; how a driver hands it to Python is
  \<open>fetch_time\<close> below.
\<close>

record user =
  u_id :: int
  u_name :: string
  u_password :: string

record post =
  p_id :: int
  p_title :: string
  p_content :: string
  p_author_id :: int
  p_created_at :: datetime

record db =
  has_users :: bool
  has_posts :: bool
  tbl_users :: "user list"
  tbl_posts :: "post list"
  user_seq :: int
  post_seq :: int

text \<open>
  What lies outside the program: the two drivers' \<^verbatim>\<open>connect\<close> (see the
  connector), the store's clock behind \<^verbatim>\<open>CURRENT_TIMESTAMP\<close>, and how the
  driver adapts a parameter that is no \<^verbatim>\<open>str\<close> (for a text column) or no
  \<^verbatim>\<open>int\<close> (for \<^verbatim>\<open>author_id\<close>), \<open>None\<close> when it raises. The source
  fixes none of these.
\<close>

record outside =
  pg_connect :: "string \<Rightarrow> error option"
  sqlite_connect :: "error option"
  now :: datetime
  adapt_text :: "json \<Rightarrow> string option"
  adapt_int :: "json \<Rightarrow> int option"

text \<open>
  Which variant of the SQL text the source picks: every
  \<^verbatim>\<open>if os.environ.get('DATABASE_URL')\<close> of \<^verbatim>\<open>init_db\<close> and of the handlers.
\<close>

datatype dialect = Primary | Embedded

definition dialect_of :: "config \<Rightarrow> dialect" where
  "dialect_of cfg = (if url_truthy (database_url cfg) then Primary else Embedded)"

text \<open>
  The statements of the source. \<open>Primary\<close> is the text with \<^verbatim>\<open>%s\<close>,
  \<^verbatim>\<open>SERIAL\<close> and \<^verbatim>\<open>RETURNING id\<close>, \<open>Embedded\<close> the text with \<^verbatim>\<open>?\<close> and
  \<^verbatim>\<open>AUTOINCREMENT\<close>; the parameters are the Python values passed along.
\<close>

datatype statement =
    CreateUsers dialect
  | CreatePosts dialect
  | CountUsers
  | InsertSeed dialect
  | SelectUserId dialect json
  | InsertUser dialect json json
  | SelectUsers
  | InsertPost dialect json json json
  | SelectPosts
  | SelectPost dialect int

record post_row =
  row_id :: int
  row_title :: string
  row_content :: string
  row_author_id :: int
  row_author_name :: string
  row_created_at :: pytime

text \<open>What a cursor holds after a statement.\<close>

datatype rows =
    NoRows
  | Count nat
  | Ids "int list"
  | Inserted int
  | UserRows "user list"
  | PostRows "post_row list"

text \<open>
  A driver accepts the placeholders of its own dialect only: sqlite3 reports a syntax
  error at \<^verbatim>\<open>%s\<close>, psycopg2 fails to bind at \<^verbatim>\<open>?\<close>. SQLite accepts both
  \<^verbatim>\<open>CREATE TABLE\<close> texts, PostgreSQL rejects \<^verbatim>\<open>AUTOINCREMENT\<close>.
\<close>

definition placeholders_ok :: "backend \<Rightarrow> dialect \<Rightarrow> bool" where
  "placeholders_ok b dl = ((b = Postgres) = (dl = Primary))"

definition ddl_ok :: "backend \<Rightarrow> dialect \<Rightarrow> bool" where
  "ddl_ok b dl = (\<not> (b = Postgres \<and> dl = Embedded))"

text \<open>
  A parameter for a \<^verbatim>\<open>NOT NULL\<close> text column and for \<^verbatim>\<open>author_id\<close>.
  \<^verbatim>\<open>VARCHAR(100)\<close> of the PostgreSQL tables rejects longer text (that it cuts
  trailing blanks instead is left out).
\<close>

definition text_param :: "outside \<Rightarrow> json \<Rightarrow> error + string" where
  "text_param out v =
     (case v of
        JStr s \<Rightarrow> Inr s
      | JNull \<Rightarrow> Inl IntegrityError
      | _ \<Rightarrow> (case adapt_text out v of Some s \<Rightarrow> Inr s | None \<Rightarrow> Inl DataError))"

definition int_param :: "outside \<Rightarrow> json \<Rightarrow> error + int" where
  "int_param out v =
     (case v of
        JNum n \<Rightarrow> Inr n
      | JNull \<Rightarrow> Inl IntegrityError
      | _ \<Rightarrow> (case adapt_int out v of Some n \<Rightarrow> Inr n | None \<Rightarrow> Inl DataError))"

definition varchar100 :: "backend \<Rightarrow> string \<Rightarrow> bool" where
  "varchar100 b s = (b = Sqlite \<or> length s \<le> 100)"

text \<open>
  \<^verbatim>\<open>CURRENT_TIMESTAMP\<close> is to the second in SQLite. sqlite3 returns the column as
  the text SQLite stores, psycopg2 as a \<^verbatim>\<open>datetime\<close>.
\<close>

definition current_timestamp :: "backend \<Rightarrow> outside \<Rightarrow> datetime" where
  "current_timestamp b out = (case b of Sqlite \<Rightarrow> (now out)\<lparr>microsecond := 0\<rparr> | Postgres \<Rightarrow> now out)"

definition fetch_time :: "backend \<Rightarrow> datetime \<Rightarrow> pytime" where
  "fetch_time b dt = (case b of Sqlite \<Rightarrow> PyStr (strftime dt) | Postgres \<Rightarrow> PyDatetime dt)"

text \<open>
  \<^verbatim>\<open>INSERT INTO users\<close>: \<^verbatim>\<open>name\<close> is \<^verbatim>\<open>UNIQUE\<close>.
\<close>

definition insert_user :: "backend \<Rightarrow> string \<Rightarrow> string \<Rightarrow> db \<Rightarrow> error + rows \<times> db" where
  "insert_user b name password d =
     (if \<not> (varchar100 b name \<and> varchar100 b password) then Inl DataError
      else if name \<in> u_name ` set (tbl_users d) then Inl IntegrityError
      else Inr (Inserted (user_seq d + 1),
                d\<lparr>tbl_users := tbl_users d @ [\<lparr>u_id = user_seq d + 1, u_name = name,
                                          u_password = password\<rparr>],
                  user_seq := user_seq d + 1\<rparr>))"

text \<open>
  \<^verbatim>\<open>INSERT INTO posts\<close>: PostgreSQL enforces
  \<^verbatim>\<open>FOREIGN KEY (author_id) REFERENCES users (id)\<close>, SQLite as sqlite3 opens it does
  not.
\<close>

definition insert_post :: "backend \<Rightarrow> outside \<Rightarrow> string \<Rightarrow> string \<Rightarrow> int \<Rightarrow> db \<Rightarrow> error + rows \<times> db" where
  "insert_post b out title content author d =
     (if b = Postgres \<and> author \<notin> u_id ` set (tbl_users d) then Inl IntegrityError
      else Inr (Inserted (post_seq d + 1),
                d\<lparr>tbl_posts := tbl_posts d @ [\<lparr>p_id = post_seq d + 1, p_title = title,
                                          p_content = content, p_author_id = author,
                                          p_created_at = current_timestamp b out\<rparr>],
                  post_seq := post_seq d + 1\<rparr>))"

text \<open>
  \<^verbatim>\<open>FROM posts JOIN users ON posts.author_id = users.id\<close>, and
  \<^verbatim>\<open>ORDER BY posts.created_at DESC\<close>; rows of equal time come in an order SQL leaves
  open, here the reverse of their insertion.
\<close>

definition time_key :: "datetime \<Rightarrow> nat \<times> nat \<times> nat \<times> nat \<times> nat \<times> nat \<times> nat" where
  "time_key dt = (year dt, month dt, day dt, hour dt, minute dt, second dt, microsecond dt)"

definition join_posts :: "db \<Rightarrow> (post \<times> user) list" where
  "join_posts d =
     concat (map (\<lambda>p. map (Pair p) (filter (\<lambda>u. u_id u = p_author_id p) (tbl_users d)))
                 (tbl_posts d))"

definition order_by_created_at_desc :: "(post \<times> user) list \<Rightarrow> (post \<times> user) list" where
  "order_by_created_at_desc ps = rev (sort_key (\<lambda>(p, u). time_key (p_created_at p)) ps)"

definition select_row :: "backend \<Rightarrow> post \<times> user \<Rightarrow> post_row" where
  "select_row b pu =
     (case pu of (p, u) \<Rightarrow>
        \<lparr>row_id = p_id p, row_title = p_title p, row_content = p_content p,
         row_author_id = p_author_id p, row_author_name = u_name u,
         row_created_at = fetch_time b (p_created_at p)\<rparr>)"

definition seed_title :: string where
  "seed_title = ''Welcome to the forum!''"

definition seed_content :: string where
  "seed_content = ''This is a welcome post.''"

text \<open>
  The two constants stand for the Chinese title and text of lines 111 and 115; nothing
  below depends on their characters.

  \<open>execute\<close> is \<^verbatim>\<open>cursor.execute\<close> on a connection of backend \<open>b\<close>: the error
  raised, or the cursor's rows and the store as the open transaction sees it.
\<close>

definition execute :: "backend \<Rightarrow> outside \<Rightarrow> statement \<Rightarrow> db \<Rightarrow> error + rows \<times> db" where
  "execute b out st d =
     (case st of
        CreateUsers dl \<Rightarrow>
          if ddl_ok b dl then Inr (NoRows, d\<lparr>has_users := True\<rparr>) else Inl SyntaxError
      | CreatePosts dl \<Rightarrow>
          if ddl_ok b dl then Inr (NoRows, d\<lparr>has_posts := True\<rparr>) else Inl SyntaxError
      | CountUsers \<Rightarrow>
          if has_users d then Inr (Count (length (tbl_users d)), d) else Inl NoSuchTable
      | InsertSeed dl \<Rightarrow>
          if \<not> placeholders_ok b dl then Inl SyntaxError
          else if \<not> has_posts d then Inl NoSuchTable
          else insert_post b out seed_title seed_content 1 d
      | SelectUserId dl name \<Rightarrow>
          if \<not> placeholders_ok b dl then Inl SyntaxError
          else if \<not> has_users d then Inl NoSuchTable
          else if name = JNull then Inr (Ids [], d)
          else (case text_param out name of
                  Inl e \<Rightarrow> Inl e
                | Inr n \<Rightarrow> Inr (Ids (map u_id (filter (\<lambda>u. u_name u = n) (tbl_users d))), d))
      | InsertUser dl name password \<Rightarrow>
          if \<not> placeholders_ok b dl then Inl SyntaxError
          else if \<not> has_users d then Inl NoSuchTable
          else (case text_param out name of
                  Inl e \<Rightarrow> Inl e
                | Inr n \<Rightarrow>
                    (case text_param out password of
                       Inl e \<Rightarrow> Inl e
                     | Inr p \<Rightarrow> insert_user b n p d))
      | SelectUsers \<Rightarrow>
          if has_users d then Inr (UserRows (sort_key u_id (tbl_users d)), d)
          else Inl NoSuchTable
      | InsertPost dl title content author \<Rightarrow>
          if \<not> placeholders_ok b dl then Inl SyntaxError
          else if \<not> has_posts d then Inl NoSuchTable
          else (case text_param out title of
                  Inl e \<Rightarrow> Inl e
                | Inr t \<Rightarrow>
                    (case text_param out content of
                       Inl e \<Rightarrow> Inl e
                     | Inr c \<Rightarrow>
                         (case int_param out author of
                            Inl e \<Rightarrow> Inl e
                          | Inr a \<Rightarrow> insert_post b out t c a d)))
      | SelectPosts \<Rightarrow>
          if has_users d \<and> has_posts d
          then Inr (PostRows (map (select_row b) (order_by_created_at_desc (join_posts d))), d)
          else Inl NoSuchTable
      | SelectPost dl i \<Rightarrow>
          if \<not> placeholders_ok b dl then Inl SyntaxError
          else if \<not> (has_users d \<and> has_posts d) then Inl NoSuchTable
          else Inr (PostRows (map (select_row b)
                                (filter (\<lambda>(p, u). p_id p = i) (join_posts d))), d))"

subsection \<open>Connections and transactions\<close>

text \<open>
  What a handler does to its connection, in order. A connection works on the store
  its backend holds; \<open>saved\<close> is the committed state, \<open>work\<close> the state the
  open transaction sees. Whatever was not committed is gone once the connection is.
\<close>

datatype event = Connect backend | Execute statement | Commit | Rollback | Close

record session =
  conn :: backend
  saved :: db
  work :: db
  trace :: "event list"

text \<open>\<^verbatim>\<open>conn = get_db_connection()\<close>, on the store \<open>d\<close> that the backend holds.\<close>

definition connect :: "config \<Rightarrow> outside \<Rightarrow> db \<Rightarrow> error + session" where
  "connect cfg out d =
     (case get_db_connection cfg (pg_connect out) (sqlite_connect out) of
        Inl e \<Rightarrow> Inl e
      | Inr b \<Rightarrow> Inr \<lparr>conn = b, saved = d, work = d, trace = [Connect b]\<rparr>)"

definition run :: "outside \<Rightarrow> statement \<Rightarrow> session \<Rightarrow> error \<times> session + rows \<times> session" where
  "run out st s =
     (case execute (conn s) out st (work s) of
        Inl e \<Rightarrow> Inl (e, s\<lparr>trace := trace s @ [Execute st]\<rparr>)
      | Inr (r, d) \<Rightarrow> Inr (r, s\<lparr>work := d, trace := trace s @ [Execute st]\<rparr>))"

definition commit :: "session \<Rightarrow> session" where
  "commit s = s\<lparr>saved := work s, trace := trace s @ [Commit]\<rparr>"

definition rollback :: "session \<Rightarrow> session" where
  "rollback s = s\<lparr>work := saved s, trace := trace s @ [Rollback]\<rparr>"

definition close :: "session \<Rightarrow> session" where
  "close s = s\<lparr>work := saved s, trace := trace s @ [Close]\<rparr>"

subsection \<open>Responses\<close>

text \<open>
  The messages of the source are Chinese text; each constructor names one:
  \<open>MissingCredentials\<close> line 145, \<open>UsernameExists\<close> line 163, \<open>RegisterFailed\<close>
  line 185, \<open>PostFailed\<close> line 240, \<open>PostNotFound\<close> line 345.
\<close>

datatype message = MissingCredentials | UsernameExists | RegisterFailed | PostFailed | PostNotFound

record post_item =
  item_id :: int
  item_title :: string
  item_content_preview :: string
  item_content :: string
  item_author_id :: int
  item_author_name :: string
  item_created_at :: pytime

record post_detail =
  detail_id :: int
  detail_title :: string
  detail_content :: string
  detail_author_id :: int
  detail_author_name :: string
  detail_created_at :: pytime

datatype body =
    Failure message
  | RawError error
  | Registered int
  | PostCreated int
  | UserList "user list"
  | PostList "post_item list" nat
  | PostDetail post_detail

text \<open>
  What a call leaves behind: the response (status and body), the store as it is
  persisted after the call, and what happened to the connection.
\<close>

record outcome =
  response :: "nat \<times> body"
  store :: db
  events :: "event list"

definition finish :: "nat \<times> body \<Rightarrow> session \<Rightarrow> outcome" where
  "finish r s = \<lparr>response = r, store = saved s, events = trace s\<rparr>"

text \<open>
  An exception inside a handler's \<^verbatim>\<open>try\<close>: the exception, the persisted store
  and the events up to it. \<open>raised\<close> is an exception while a connection is open;
  \<open>caught\<close> is \<^verbatim>\<open>except Exception: return r\<close>, which lets what is no
  \<^verbatim>\<open>Exception\<close> leave the handler.
\<close>

type_synonym failure = "error \<times> db \<times> event list"

definition raised :: "error \<times> session \<Rightarrow> failure" where
  "raised es = (case es of (e, s) \<Rightarrow> (e, saved s, trace s))"

definition caught :: "failure \<Rightarrow> nat \<times> body \<Rightarrow> error + outcome" where
  "caught f r =
     (case f of (e, d, es) \<Rightarrow>
        if is_exception e then Inr \<lparr>response = r, store = d, events = es\<rparr> else Inl e)"

subsection \<open>init_db\<close>

text \<open>Lines 57 to 118, the body of the \<^verbatim>\<open>try\<close>.\<close>

definition init_db_seed :: "config \<Rightarrow> outside \<Rightarrow> session \<Rightarrow> error \<times> session + session" where
  "init_db_seed cfg out s =
     (case run out CountUsers s of
        Inl err \<Rightarrow> Inl err
      | Inr (r, s1) \<Rightarrow>
          (case r of
             Count user_count \<Rightarrow>
               if user_count = 0 then
                 (case run out (InsertSeed (dialect_of cfg)) s1 of
                    Inl err \<Rightarrow> Inl err
                  | Inr (r2, s2) \<Rightarrow> Inr (commit s2))
               else Inr s1
           | _ \<Rightarrow> Inl (TypeError, s1)))"

definition init_db_try :: "config \<Rightarrow> outside \<Rightarrow> session \<Rightarrow> error \<times> session + session" where
  "init_db_try cfg out s =
     (case run out (CreateUsers (dialect_of cfg)) s of
        Inl err \<Rightarrow> Inl err
      | Inr (r1, s1) \<Rightarrow>
          (case run out (CreatePosts (dialect_of cfg)) s1 of
             Inl err \<Rightarrow> Inl err
           | Inr (r2, s2) \<Rightarrow> init_db_seed cfg out (commit s2)))"

text \<open>
  Line 54 is outside the \<^verbatim>\<open>try\<close>: what \<^verbatim>\<open>get_db_connection\<close> raises leaves
  \<^verbatim>\<open>init_db\<close>. The result is the persisted store and the events.
\<close>

definition init_db :: "config \<Rightarrow> outside \<Rightarrow> db \<Rightarrow> error + db \<times> event list" where
  "init_db cfg out d =
     (case connect cfg out d of
        Inl e \<Rightarrow> Inl e
      | Inr s \<Rightarrow>
          (case init_db_try cfg out s of
             Inr s1 \<Rightarrow> Inr (saved (close s1), trace (close s1))
           | Inl (e, s1) \<Rightarrow>
               if is_exception e
               then Inr (saved (close (rollback s1)), trace (close (rollback s1)))
               else Inl e))"

subsection \<open>register\<close>

text \<open>Lines 150 to 181: from the connection on.\<close>

definition register_insert ::
  "config \<Rightarrow> outside \<Rightarrow> json \<Rightarrow> json \<Rightarrow> session \<Rightarrow> failure + outcome" where
  "register_insert cfg out name password s =
     (case run out (InsertUser (dialect_of cfg) name password) s of
        Inl err \<Rightarrow> Inl (raised err)
      | Inr (r, s1) \<Rightarrow>
          (case r of
             Inserted user_id \<Rightarrow> Inr (finish (201, Registered user_id) (close (commit s1)))
           | _ \<Rightarrow> Inl (raised (TypeError, s1))))"

definition register_store ::
  "config \<Rightarrow> outside \<Rightarrow> json \<Rightarrow> json \<Rightarrow> session \<Rightarrow> failure + outcome" where
  "register_store cfg out name password s =
     (case run out (SelectUserId (dialect_of cfg) name) s of
        Inl err \<Rightarrow> Inl (raised err)
      | Inr (r, s1) \<Rightarrow>
          (case r of
             Ids (existing_user # rest) \<Rightarrow>
               Inr (finish (400, Failure UsernameExists) (close s1))
           | Ids [] \<Rightarrow> register_insert cfg out name password s1
           | _ \<Rightarrow> Inl (raised (TypeError, s1))))"

text \<open>
  Lines 144 to 148: the test of line 144 with its short-circuit order, then the two
  subscripts. \<open>Inl\<close> is an exception before any connection exists.
\<close>

datatype checked = Missing | Fields json json

definition register_fields :: "json \<Rightarrow> error + checked" where
  "register_fields data =
     (if \<not> truthy data then Inr Missing
      else (case py_in ''name'' data of
              Inl e \<Rightarrow> Inl e
            | Inr has_name \<Rightarrow>
                if \<not> has_name then Inr Missing
                else (case py_in ''password'' data of
                        Inl e \<Rightarrow> Inl e
                      | Inr has_password \<Rightarrow>
                          if \<not> has_password then Inr Missing
                          else (case py_getitem data ''name'' of
                                  Inl e \<Rightarrow> Inl e
                                | Inr name \<Rightarrow>
                                    (case py_getitem data ''password'' of
                                       Inl e \<Rightarrow> Inl e
                                     | Inr password \<Rightarrow> Inr (Fields name password))))))"

text \<open>
  The body of the \<^verbatim>\<open>try\<close> (lines 141 to 181). \<open>get_json\<close> is what
  \<^verbatim>\<open>request.get_json()\<close> does for the request: the value it returns, or the
  exception it raises.
\<close>

definition register_try :: "config \<Rightarrow> outside \<Rightarrow> error + json \<Rightarrow> db \<Rightarrow> failure + outcome" where
  "register_try cfg out get_json d =
     (case get_json of
        Inl e \<Rightarrow> Inl (e, d, [])
      | Inr data \<Rightarrow>
          (case register_fields data of
             Inl e \<Rightarrow> Inl (e, d, [])
           | Inr Missing \<Rightarrow>
               Inr \<lparr>response = (400, Failure MissingCredentials), store = d, events = []\<rparr>
           | Inr (Fields name password) \<Rightarrow>
               (case connect cfg out d of
                  Inl e \<Rightarrow> Inl (e, d, [])
                | Inr s \<Rightarrow> register_store cfg out name password s)))"

definition register :: "config \<Rightarrow> outside \<Rightarrow> error + json \<Rightarrow> db \<Rightarrow> error + outcome" where
  "register cfg out get_json d =
     (case register_try cfg out get_json d of
        Inr result \<Rightarrow> Inr result
      | Inl f \<Rightarrow> caught f (500, Failure RegisterFailed))"

subsection \<open>get_users\<close>

definition get_users_try :: "config \<Rightarrow> outside \<Rightarrow> db \<Rightarrow> failure + outcome" where
  "get_users_try cfg out d =
     (case connect cfg out d of
        Inl e \<Rightarrow> Inl (e, d, [])
      | Inr s \<Rightarrow>
          (case run out SelectUsers s of
             Inl err \<Rightarrow> Inl (raised err)
           | Inr (r, s1) \<Rightarrow>
               (case r of
                  UserRows users_list \<Rightarrow> Inr (finish (200, UserList users_list) (close s1))
                | _ \<Rightarrow> Inl (raised (TypeError, s1)))))"

definition get_users :: "config \<Rightarrow> outside \<Rightarrow> db \<Rightarrow> error + outcome" where
  "get_users cfg out d =
     (case get_users_try cfg out d of
        Inr result \<Rightarrow> Inr result
      | Inl f \<Rightarrow> caught f (500, RawError (fst f)))"

subsection \<open>create_post\<close>

text \<open>
  Lines 215 to 236. The connection is opened first; the three subscripts of the
  parameter tuple come after it, in the order title, content, author_id.
\<close>

definition post_fields :: "json \<Rightarrow> error + json \<times> json \<times> json" where
  "post_fields data =
     (case py_getitem data ''title'' of
        Inl e \<Rightarrow> Inl e
      | Inr title \<Rightarrow>
          (case py_getitem data ''content'' of
             Inl e \<Rightarrow> Inl e
           | Inr content \<Rightarrow>
               (case py_getitem data ''author_id'' of
                  Inl e \<Rightarrow> Inl e
                | Inr author_id \<Rightarrow> Inr (title, content, author_id))))"

definition create_post_insert ::
  "config \<Rightarrow> outside \<Rightarrow> json \<Rightarrow> session \<Rightarrow> failure + outcome" where
  "create_post_insert cfg out data s =
     (case post_fields data of
        Inl e \<Rightarrow> Inl (raised (e, s))
      | Inr (title, content, author_id) \<Rightarrow>
          (case run out (InsertPost (dialect_of cfg) title content author_id) s of
             Inl err \<Rightarrow> Inl (raised err)
           | Inr (r, s1) \<Rightarrow>
               (case r of
                  Inserted post_id \<Rightarrow>
                    Inr (finish (201, PostCreated post_id) (close (commit s1)))
                | _ \<Rightarrow> Inl (raised (TypeError, s1)))))"

definition create_post_try :: "config \<Rightarrow> outside \<Rightarrow> error + json \<Rightarrow> db \<Rightarrow> failure + outcome" where
  "create_post_try cfg out get_json d =
     (case get_json of
        Inl e \<Rightarrow> Inl (e, d, [])
      | Inr data \<Rightarrow>
          (case connect cfg out d of
             Inl e \<Rightarrow> Inl (e, d, [])
           | Inr s \<Rightarrow> create_post_insert cfg out data s))"

definition create_post :: "config \<Rightarrow> outside \<Rightarrow> error + json \<Rightarrow> db \<Rightarrow> error + outcome" where
  "create_post cfg out get_json d =
     (case create_post_try cfg out get_json d of
        Inr result \<Rightarrow> Inr result
      | Inl f \<Rightarrow> caught f (500, Failure PostFailed))"

subsection \<open>get_posts and get_post\<close>

text \<open>Lines 265 to 294: one turn of the loop over the fetched rows.\<close>

definition content_preview :: "string \<Rightarrow> string" where
  "content_preview content =
     (if length content > 100 then take 100 content @ ''...'' else content)"

definition post_item :: "post_row \<Rightarrow> post_item" where
  "post_item post =
     \<lparr>item_id = row_id post, item_title = row_title post,
      item_content_preview = content_preview (row_content post),
      item_content = row_content post, item_author_id = row_author_id post,
      item_author_name = row_author_name post,
      item_created_at = formatted_time (row_created_at post)\<rparr>"

definition get_posts_try :: "config \<Rightarrow> outside \<Rightarrow> db \<Rightarrow> failure + outcome" where
  "get_posts_try cfg out d =
     (case connect cfg out d of
        Inl e \<Rightarrow> Inl (e, d, [])
      | Inr s \<Rightarrow>
          (case run out SelectPosts s of
             Inl err \<Rightarrow> Inl (raised err)
           | Inr (r, s1) \<Rightarrow>
               (case r of
                  PostRows posts \<Rightarrow>
                    Inr (finish (200, PostList (map post_item posts)
                                   (length (map post_item posts))) (close s1))
                | _ \<Rightarrow> Inl (raised (TypeError, s1)))))"

definition get_posts :: "config \<Rightarrow> outside \<Rightarrow> db \<Rightarrow> error + outcome" where
  "get_posts cfg out d =
     (case get_posts_try cfg out d of
        Inr result \<Rightarrow> Inr result
      | Inl f \<Rightarrow> caught f (500, RawError (fst f)))"

text \<open>
  Lines 310 to 375. The connection is closed at line 342, before the row is looked
  at.
\<close>

definition post_detail :: "post_row \<Rightarrow> post_detail" where
  "post_detail post =
     \<lparr>detail_id = row_id post, detail_title = row_title post,
      detail_content = row_content post, detail_author_id = row_author_id post,
      detail_author_name = row_author_name post,
      detail_created_at = formatted_time (row_created_at post)\<rparr>"

definition get_post_try :: "config \<Rightarrow> outside \<Rightarrow> int \<Rightarrow> db \<Rightarrow> failure + outcome" where
  "get_post_try cfg out post_id d =
     (case connect cfg out d of
        Inl e \<Rightarrow> Inl (e, d, [])
      | Inr s \<Rightarrow>
          (case run out (SelectPost (dialect_of cfg) post_id) s of
             Inl err \<Rightarrow> Inl (raised err)
           | Inr (r, s1) \<Rightarrow>
               (case r of
                  PostRows [] \<Rightarrow> Inr (finish (404, Failure PostNotFound) (close s1))
                | PostRows (post # rest) \<Rightarrow>
                    Inr (finish (200, PostDetail (post_detail post)) (close s1))
                | _ \<Rightarrow> Inl (raised (TypeError, s1)))))"

definition get_post :: "config \<Rightarrow> outside \<Rightarrow> int \<Rightarrow> db \<Rightarrow> error + outcome" where
  "get_post cfg out post_id d =
     (case get_post_try cfg out post_id d of
        Inr result \<Rightarrow> Inr result
      | Inl f \<Rightarrow> caught f (500, RawError (fst f)))"

text \<open>
  Reading the events of a call: it leaves its connection open when it opened one and
  never closed it. The dialect of a statement, for those that have one, and the
  statements among the events.
\<close>

definition leaves_open :: "event list \<Rightarrow> bool" where
  "leaves_open es = ((Connect Postgres \<in> set es \<or> Connect Sqlite \<in> set es) \<and> Close \<notin> set es)"

fun statement_dialect :: "statement \<Rightarrow> dialect option" where
  "statement_dialect (CreateUsers dl) = Some dl"
| "statement_dialect (CreatePosts dl) = Some dl"
| "statement_dialect (InsertSeed dl) = Some dl"
| "statement_dialect (SelectUserId dl n) = Some dl"
| "statement_dialect (InsertUser dl n p) = Some dl"
| "statement_dialect (InsertPost dl t c a) = Some dl"
| "statement_dialect (SelectPost dl i) = Some dl"
| "statement_dialect CountUsers = None"
| "statement_dialect SelectUsers = None"
| "statement_dialect SelectPosts = None"

definition executed :: "event list \<Rightarrow> statement list" where
  "executed es = concat (map (\<lambda>e. case e of Execute st \<Rightarrow> [st] | _ \<Rightarrow> []) es)"

section \<open>Properties\<close>

subsection \<open>The store connector\<close>

text \<open>
  C3, as the claim states it, fails: with no descriptor configured and a
  \<^verbatim>\<open>database.db\<close> that \<^verbatim>\<open>sqlite3.connect\<close> cannot open, line 47 raises and
  the error leaves the connector.
\<close>

theorem connector_raises_counterexample:
  "database_url \<lparr>database_url = None, postgres_available = False\<rparr> = None
   \<and> get_db_connection \<lparr>database_url = None, postgres_available = False\<rparr>
         Map.empty (Some OperationalError) = Inl OperationalError"
  by (simp add: get_db_connection_def sqlite_connection_def)

text \<open>
  C3, amended. Whenever the connection descriptor is absent, or starts with two
  opening braces and ends with two closing braces, or \<^verbatim>\<open>psycopg2.connect\<close>
  raises an \<^verbatim>\<open>Exception\<close>, the connector does what
  \<^verbatim>\<open>sqlite3.connect('database.db')\<close> does: it returns the SQLite connection when
  that call returns, and raises the call's error when it raises.
\<close>

theorem connector_falls_back_to_sqlite:
  "database_url cfg = None
   \<or> (\<exists>u. database_url cfg = Some u \<and> startswith u ''{{'' \<and> endswith u ''}}'')
   \<or> (\<exists>u e. database_url cfg = Some u \<and> psycopg2_connect u = Some e \<and> is_exception e)
   \<Longrightarrow> get_db_connection cfg psycopg2_connect sqlite3_connect =
         (case sqlite3_connect of None \<Rightarrow> Inr Sqlite | Some e \<Rightarrow> Inl e)"
  by (auto simp: get_db_connection_def try_primary_def sqlite_connection_def is_exception_def
      split: option.splits sum.splits)

theorem connector_falls_back_to_sqlite_witness:
  "(\<exists>u. database_url \<lparr>database_url = Some ''{{Postgres.DATABASE_URL}}'', postgres_available = True\<rparr>
          = Some u \<and> startswith u ''{{'' \<and> endswith u ''}}'')
   \<and> get_db_connection
        \<lparr>database_url = Some ''{{Postgres.DATABASE_URL}}'', postgres_available = True\<rparr>
        Map.empty None = Inr Sqlite"
proof -
  have h: "\<exists>u. database_url \<lparr>database_url = Some ''{{Postgres.DATABASE_URL}}'', postgres_available = True\<rparr>
          = Some u \<and> startswith u ''{{'' \<and> endswith u ''}}''"
    by (simp add: startswith_def endswith_def)
  have "get_db_connection
        \<lparr>database_url = Some ''{{Postgres.DATABASE_URL}}'', postgres_available = True\<rparr>
        Map.empty None = (case None of None \<Rightarrow> Inr Sqlite | Some e \<Rightarrow> Inl e)"
    using h
    by (intro connector_falls_back_to_sqlite
         [of "\<lparr>database_url = Some ''{{Postgres.DATABASE_URL}}'', postgres_available = True\<rparr>"
             Map.empty None]) blast
  with h show ?thesis by simp
qed

subsection \<open>Digits, fields and the calendar\<close>














































subsection \<open>The time conversion\<close>



end
